theory Spec2Isabelle
  imports
    Complex_Main
    "HOL-Library.Char_ord"
    "HOL-Library.List_Lexorder"
    "HOL-Library.Product_Lexorder"
begin

section \<open>The hotel ADR dashboard (app.py)\<close>

text \<open>
  The program is one script that is run again from its first line at every user
  interaction: it loads the reservation table, derives columns, filters by a date range
  and a room-type list, and branches on the selected chart.  The model follows the script
  from the loaded, coerced table onwards.

  Conventions of the model.
  \<^item> A float column cell is \<open>real option\<close>: \<open>None\<close> is the null (NaN) that
    \<open>errors='coerce'\<close> leaves; a present value is an exact real, so float rounding is
    not modelled.
  \<^item> A text cell is a \<open>string\<close> of bytes (UTF-8); the emoji that prefix some messages of
    the source are left out of the message literals.
  \<^item> What the plotting and widget toolkit receives is a value of type \<open>widget\<close>.
\<close>

subsection \<open>Cells, dates and rows\<close>

type_synonym num = "real option"

datatype month = Jan | Feb | Mar | Apr | May | Jun | Jul | Aug | Sep | Oct | Nov | Dec

record date =
  year_of :: int
  month_of :: month
  day_of :: nat

definition month_number :: "month \<Rightarrow> nat" where
  "month_number m =
     (case m of Jan \<Rightarrow> 1 | Feb \<Rightarrow> 2 | Mar \<Rightarrow> 3 | Apr \<Rightarrow> 4 | May \<Rightarrow> 5 | Jun \<Rightarrow> 6
              | Jul \<Rightarrow> 7 | Aug \<Rightarrow> 8 | Sep \<Rightarrow> 9 | Oct \<Rightarrow> 10 | Nov \<Rightarrow> 11 | Dec \<Rightarrow> 12)"

text \<open>Comparison of two \<open>datetime.date\<close> values: by year, then month, then day.\<close>

definition date_le :: "date \<Rightarrow> date \<Rightarrow> bool" where
  "date_le a b =
     ((year_of a, month_number (month_of a), day_of a) \<le>
      (year_of b, month_number (month_of b), day_of b))"

text \<open>
  One row of the table after the coercions of lines 10-18: \<open>Check-in\<close> is null where the
  text did not parse, \<open>ADR\<close> and \<open>Total price\<close> likewise, \<open>night\<close> has had its nulls
  replaced by 1.
\<close>

record reservation =
  check_in :: "date option"
  adr :: num
  total_price :: num
  room :: string
  night :: real
  booking_reference :: "string option"

text \<open>\<open>strftime('%b')\<close>: the abbreviated month name.\<close>

definition month_names :: "string list" where
  "month_names = [''Jan'', ''Feb'', ''Mar'', ''Apr'', ''May'', ''Jun'',
                  ''Jul'', ''Aug'', ''Sep'', ''Oct'', ''Nov'', ''Dec'']"

definition strftime_b :: "date \<Rightarrow> string" where
  "strftime_b d = month_names ! (month_number (month_of d) - 1)"

text \<open>
  The derived columns \<open>Year\<close>, \<open>Month\<close>, \<open>Day\<close> (lines 12-14) and \<open>Room Type\<close>
  (line 29) are assigned once, from columns that are never assigned again, so each is a
  function of the row.
\<close>

definition Year :: "reservation \<Rightarrow> int option" where
  "Year r = map_option year_of (check_in r)"

definition Month :: "reservation \<Rightarrow> string option" where
  "Month r = map_option strftime_b (check_in r)"

definition Day :: "reservation \<Rightarrow> nat option" where
  "Day r = map_option day_of (check_in r)"

subsection \<open>The room classifier (lines 21-28)\<close>

definition lower_char :: "char \<Rightarrow> char" where
  "lower_char c = (if CHR ''A'' \<le> c \<and> c \<le> CHR ''Z'' then char_of (of_char c + (32::nat)) else c)"

text \<open>
  \<open>str.lower\<close> on the bytes of the text.  Python lowers non-ASCII letters too; none of
  them becomes one of the ASCII letters the classifier looks for, and no byte of a
  multi-byte UTF-8 character is ASCII, so the three tests below see the same answer.
\<close>

definition lower :: "string \<Rightarrow> string" where
  "lower s = map lower_char s"

fun startswith :: "string \<Rightarrow> string \<Rightarrow> bool" where
  "startswith s [] = True"
| "startswith [] (p # ps) = False"
| "startswith (c # cs) (p # ps) = (c = p \<and> startswith cs ps)"

text \<open>\<open>sub in s\<close> for two strings.\<close>

fun contains :: "string \<Rightarrow> string \<Rightarrow> bool" where
  "contains sub [] = (sub = [])"
| "contains sub (c # cs) = (startswith (c # cs) sub \<or> contains sub cs)"

definition Shower :: string where
  "Shower = ''Deluxe Twin Room with Shower''"

definition Bathtub :: string where
  "Bathtub = ''Deluxe Twin Room with Bathtub''"

definition Other :: string where
  "Other = ''Other''"

definition map_room_type :: "string \<Rightarrow> string" where
  "map_room_type room0 =
     (let room = lower room0 in
      if contains ''shower'' room then Shower
      else if contains ''bathtub'' room \<or> contains ''bath tub'' room then Bathtub
      else Other)"

definition Room_Type :: "reservation \<Rightarrow> string" where
  "Room_Type r = map_room_type (room r)"

subsection \<open>Tables\<close>

text \<open>
  A bucket cell: null, one of the fixed \<open>ADR Group\<close> labels, or the label
  \<open>f"{a}-{b}"\<close> of an \<open>ADR_BIN_5P\<close> bin, kept as the pair of integers it prints.
\<close>

datatype cell = NA | Group string | Bin int int

text \<open>
  A DataFrame: the rows, and the categorical columns a routine has assigned to it, by
  name, each aligned with the rows.
\<close>

record frame =
  rows :: "reservation list"
  added :: "(string \<times> cell list) list"

text \<open>\<open>df[mask]\<close>: a new table of the selected rows, every column cut alike.\<close>

definition boolean_index :: "(reservation \<Rightarrow> bool) \<Rightarrow> frame \<Rightarrow> frame" where
  "boolean_index keep df =
     \<lparr> rows = filter keep (rows df),
       added = map (\<lambda>(name, cells).
                 (name, map snd (filter (\<lambda>(r, c). keep r) (zip (rows df) cells)))) (added df) \<rparr>"

text \<open>\<open>df[name] = cells\<close>: replaces the column of that name, or appends it.\<close>

fun set_column :: "string \<Rightarrow> cell list \<Rightarrow> (string \<times> cell list) list \<Rightarrow> (string \<times> cell list) list" where
  "set_column name cells [] = [(name, cells)]"
| "set_column name cells ((n, cs) # cols) =
     (if n = name then (name, cells) # cols else (n, cs) # set_column name cells cols)"

definition assign :: "string \<Rightarrow> cell list \<Rightarrow> frame \<Rightarrow> frame" where
  "assign name cells df = df \<lparr> added := set_column name cells (added df) \<rparr>"

subsection \<open>The date-range filter (lines 43-52)\<close>

text \<open>
  What \<open>st.sidebar.date_input\<close> hands back: a single date, or a tuple of the dates
  picked so far (none, one or two for a range).
\<close>

datatype date_input = One date | Tuple "date list"

text \<open>A comparison with a null \<open>Check-in\<close> is false.\<close>

definition date_mask :: "date \<Rightarrow> date \<Rightarrow> reservation \<Rightarrow> bool" where
  "date_mask start_date end_date r =
     ((case check_in r of None \<Rightarrow> False | Some d \<Rightarrow> date_le start_date d) \<and>
      (case check_in r of None \<Rightarrow> False | Some d \<Rightarrow> date_le d end_date) \<and>
      Room_Type r \<in> set [Shower, Bathtub])"

datatype error = Select_both_dates

definition error_message :: "error \<Rightarrow> string" where
  "error_message e = (case e of Select_both_dates \<Rightarrow> ''Please select both a start and end date.'')"

definition date_range_filter :: "frame \<Rightarrow> date_input \<Rightarrow> error + frame" where
  "date_range_filter data selected_dates =
     (case selected_dates of
        Tuple [start_date, end_date] \<Rightarrow> Inr (boolean_index (date_mask start_date end_date) data)
      | _ \<Rightarrow> Inl Select_both_dates)"

subsection \<open>The table library, as far as the script uses it\<close>

text \<open>Aggregations skip nulls (\<open>skipna\<close>); \<open>count\<close> counts the cells that are not null.\<close>

definition present :: "'a option list \<Rightarrow> 'a list" where
  "present xs = concat (map (\<lambda>x. case x of None \<Rightarrow> [] | Some v \<Rightarrow> [v]) xs)"

definition mean :: "num list \<Rightarrow> num" where
  "mean xs = (let vs = present xs in
              if vs = [] then None else Some (sum_list vs / real (length vs)))"

definition count :: "'a option list \<Rightarrow> nat" where
  "count xs = length (present xs)"

definition col_sum :: "num list \<Rightarrow> real" where
  "col_sum xs = sum_list (present xs)"

definition col_min :: "num list \<Rightarrow> num" where
  "col_min xs = (case present xs of [] \<Rightarrow> None | v # vs \<Rightarrow> Some (fold min vs v))"

definition col_max :: "num list \<Rightarrow> num" where
  "col_max xs = (case present xs of [] \<Rightarrow> None | v # vs \<Rightarrow> Some (fold max vs v))"

text \<open>
  \<open>groupby(key)\<close> with the defaults \<open>sort=True, dropna=True\<close>: one group for each
  key that occurs, in ascending key order; rows whose key is null are in no group.
\<close>

definition groupby :: "('r \<Rightarrow> 'k option) \<Rightarrow> 'r list \<Rightarrow> ('k::linorder \<times> 'r list) list" where
  "groupby key rs =
     map (\<lambda>k. (k, filter (\<lambda>r. key r = Some k) rs)) (sort (remdups (present (map key rs))))"

text \<open>
  \<open>groupby\<close> on a categorical column.  The groups come in the order of the categories.
  Which categories get a group is the \<open>observed\<close> option; the script does not pass it, so
  the default of the installed pandas decides: \<open>False\<close> (every category, also one with no
  row) before version 3.0, \<open>True\<close> (only the categories that occur) from 3.0 on.  It is a
  parameter of the model.
\<close>

definition groupby_categorical ::
    "bool \<Rightarrow> 'k list \<Rightarrow> ('r \<Rightarrow> 'k option) \<Rightarrow> 'r list \<Rightarrow> ('k \<times> 'r list) list" where
  "groupby_categorical observed categories key rs =
     map (\<lambda>k. (k, filter (\<lambda>r. key r = Some k) rs))
       (filter (\<lambda>k. \<not> observed \<or> Some k \<in> set (map key rs)) categories)"

text \<open>
  \<open>sort_values(by, ascending=False)\<close>: pandas reverses the column, sorts it ascending
  and reverses the result, so that rows with equal keys keep their order when the sort
  underneath is stable.  The default kind is numpy's quicksort, which on the few rows of
  a grouped table is an insertion sort; \<open>sort_key\<close> is that sort.
\<close>

definition sort_values_desc :: "('a \<Rightarrow> 'k::linorder) \<Rightarrow> 'a list \<Rightarrow> 'a list" where
  "sort_values_desc by xs = rev (sort_key by (rev xs))"

definition head :: "nat \<Rightarrow> 'a list \<Rightarrow> 'a list" where
  "head n xs = take n xs"

text \<open>A bin edge: a finite float or \<open>float('inf')\<close>.\<close>

datatype edge = Edge real | Inf

fun edge_lt :: "edge \<Rightarrow> real \<Rightarrow> bool" where
  "edge_lt (Edge b) x = (b < x)"
| "edge_lt Inf x = False"

text \<open>
  \<open>searchsorted(x, side='left')\<close> on increasing edges: the number of edges below \<open>x\<close>.
\<close>

definition searchsorted_left :: "edge list \<Rightarrow> real \<Rightarrow> nat" where
  "searchsorted_left edges x = length (takeWhile (\<lambda>b. edge_lt b x) edges)"

text \<open>
  \<open>pd.cut(x, bins, labels, right=True)\<close> for one value: bin \<open>i\<close> is the interval
  \<open>(bins[i], bins[i+1]]\<close>, closed on the right; \<open>include_lowest\<close> puts the first
  edge itself into the first bin; a null, and a value in no bin, give a null.
\<close>

definition pd_cut :: "edge list \<Rightarrow> cell list \<Rightarrow> bool \<Rightarrow> num \<Rightarrow> cell" where
  "pd_cut edges names include_lowest x =
     (case x of
        None \<Rightarrow> NA
      | Some v \<Rightarrow>
          (let ids = (if include_lowest \<and> take 1 edges = [Edge v] then 1
                      else searchsorted_left edges v)
           in if ids = 0 \<or> ids = length edges then NA else names ! (ids - 1)))"

text \<open>
  The arguments \<open>pd.cut\<close> accepts: edges that do not decrease and (unless there are
  just two) do not repeat, one label for each bin, no label twice (the labels are ordered
  categories).  Otherwise it raises \<open>ValueError\<close>.
\<close>

fun edge_le :: "edge \<Rightarrow> edge \<Rightarrow> bool" where
  "edge_le (Edge a) (Edge b) = (a \<le> b)"
| "edge_le (Edge a) Inf = True"
| "edge_le Inf (Edge b) = False"
| "edge_le Inf Inf = True"

definition cut_accepts :: "edge list \<Rightarrow> cell list \<Rightarrow> bool" where
  "cut_accepts edges names =
     (sorted_wrt edge_le edges \<and> (distinct edges \<or> length edges = 2) \<and>
      length names = length edges - 1 \<and> distinct names)"

text \<open>\<open>df[name]\<close> for an assigned column; the script reads a name only after assigning it.\<close>

definition column :: "string \<Rightarrow> frame \<Rightarrow> cell list" where
  "column name df = (case map_of (added df) name of Some cells \<Rightarrow> cells | None \<Rightarrow> [])"

definition cell_key :: "cell \<Rightarrow> cell option" where
  "cell_key c = (if c = NA then None else Some c)"

subsection \<open>What a run shows\<close>

datatype widget =
    Error string
  | Warning string
  | Caption nat string
  | Title string
  | Subheader string
  | Scatter "((string \<times> nat \<times> string) \<times> num \<times> nat) list"
  | Pie "(cell \<times> real) list"
  | Lines "(string \<times> num \<times> nat) list"
  | Slider string num real
  | Forecast string nat num num num num bool
  | Bar "(cell \<times> string \<times> nat) list"

text \<open>The widgets that \<open>st.plotly_chart\<close> draws.\<close>

fun is_chart :: "widget \<Rightarrow> bool" where
  "is_chart (Scatter g) = True"
| "is_chart (Pie g) = True"
| "is_chart (Lines g) = True"
| "is_chart (Bar g) = True"
| "is_chart w = False"

subsection \<open>Chart 1: Monthly ADR Distribution (lines 67-85)\<close>

definition chart1 :: "frame \<Rightarrow> widget list \<times> frame" where
  "chart1 filtered =
     (let grouped =
            map (\<lambda>(k, rs). (k, mean (map adr rs), count (map adr rs)))
              (groupby (\<lambda>r. case (Month r, Day r) of
                                (Some m, Some d) \<Rightarrow> Some (m, d, Room_Type r)
                              | _ \<Rightarrow> None)
                 (rows filtered))
      in ([Subheader ''Monthly ADR Distribution by Room Type'', Scatter grouped], filtered))"

subsection \<open>Chart 2: Top 3 ADR Revenue Share by Month (lines 88-104)\<close>

definition bins :: "edge list" where
  "bins = [Edge 0, Edge 800, Edge 1000, Edge 1200, Inf]"

definition labels :: "cell list" where
  "labels = [Group ''<800'', Group ''800-1000'', Group ''1000-1200'', Group ''>1200'']"

text \<open>The \<open>ADR Group\<close> of one ADR value (line 93).\<close>

definition adr_group :: "num \<Rightarrow> cell" where
  "adr_group x = pd_cut bins labels False x"

text \<open>
  Lines 90 and 93: the rows of the selected month, as a new table, with the column
  \<open>ADR Group\<close> assigned to that table.
\<close>

definition month_data :: "string \<Rightarrow> frame \<Rightarrow> frame" where
  "month_data selected_month filtered =
     (let md = boolean_index (\<lambda>r. Month r = Some selected_month) filtered
      in assign ''ADR Group'' (map adr_group (map adr (rows md))) md)"

text \<open>Line 94: revenue per group, sorted by revenue descending, the first three rows.\<close>

definition revenue_by_group :: "bool \<Rightarrow> frame \<Rightarrow> (cell \<times> real) list" where
  "revenue_by_group observed md =
     map (\<lambda>(g, rs). (g, col_sum (map (\<lambda>(r, c). total_price r) rs)))
       (groupby_categorical observed labels (\<lambda>(r, c). cell_key c)
          (zip (rows md) (column ''ADR Group'' md)))"

definition top3 :: "bool \<Rightarrow> frame \<Rightarrow> (cell \<times> real) list" where
  "top3 observed md = head 3 (sort_values_desc snd (revenue_by_group observed md))"

definition chart2 :: "bool \<Rightarrow> string \<Rightarrow> frame \<Rightarrow> widget list \<times> frame" where
  "chart2 observed selected_month filtered =
     (let t3 = top3 observed (month_data selected_month filtered)
      in (Title (selected_month @ '' - Top 3 ADR Share'') #
          (if t3 \<noteq> [] then
             Pie t3 # (if length t3 < 3 then [Caption (length t3) selected_month] else [])
           else [Warning ''No data available.'']),
          filtered))"

subsection \<open>Chart 3: Year-over-Year Trends (lines 107-117)\<close>

text \<open>
  The code of a month name in the ordered categorical of line 110: its position in the
  calendar list.
\<close>

definition calendar_code :: "string \<Rightarrow> nat" where
  "calendar_code m = length (takeWhile (\<lambda>c. c \<noteq> m) month_names)"

definition yoy :: "frame \<Rightarrow> (string \<times> num \<times> nat) list" where
  "yoy filtered =
     sort_key (\<lambda>(m, a, b). calendar_code m)
       (map (\<lambda>(m, rs). (m, mean (map adr rs), count (map adr rs)))
          (groupby Month (rows filtered)))"

definition chart3 :: "frame \<Rightarrow> widget list \<times> frame" where
  "chart3 filtered =
     ([Subheader ''Year-over-Year ADR and Booking Trends'', Lines (yoy filtered)], filtered)"

subsection \<open>Chart 4: Seasonal Analysis (lines 120-153)\<close>

text \<open>\<open>round(x, 2)\<close>: to two decimals, a tie to the even neighbour.\<close>

definition py_round2 :: "real \<Rightarrow> real" where
  "py_round2 x =
     (let y = x * 100; f = floor y in
      real_of_int (if y - real_of_int f < 1/2 then f
                   else if 1/2 < y - real_of_int f then f + 1
                   else if even f then f else f + 1) / 100)"

text \<open>
  The sliders are an input: \<open>sliders room\<close> is the position the user gave the slider of
  that room type, or \<open>None\<close> where it stands at its default, the current ADR.  The four
  lines of text of a room type are one \<open>Forecast\<close>.
\<close>

definition chart4 :: "(string \<Rightarrow> real option) \<Rightarrow> frame \<Rightarrow> widget list \<times> frame" where
  "chart4 sliders filtered =
     (let grouped =
            map (\<lambda>(t, rs). (t, mean (map adr rs), count (map booking_reference rs),
                            sum_list (map night rs)))
              (groupby (\<lambda>r. Some (Room_Type r)) (rows filtered))
      in (Subheader ''Adjust ADR and Forecast Revenue'' #
          concat (map (\<lambda>(t, current, bookings, nights).
            (let cur_adr = map_option py_round2 current;
                 max_value = (case cur_adr of
                                Some c \<Rightarrow> if 0 < c then c * 2 else 10000
                              | None \<Rightarrow> 10000);
                 adj = (case sliders t of Some v \<Rightarrow> Some v | None \<Rightarrow> cur_adr);
                 original_revenue = map_option (\<lambda>c. c * nights) cur_adr;
                 projected_revenue = map_option (\<lambda>a. a * nights) adj;
                 diff = (case (projected_revenue, original_revenue) of
                           (Some p, Some orig) \<Rightarrow> Some (p - orig)
                         | _ \<Rightarrow> None)
             in [Slider t cur_adr max_value,
                 Forecast t bookings adj cur_adr projected_revenue diff
                   (case diff of Some d \<Rightarrow> 0 < d | None \<Rightarrow> False)])) grouped),
          filtered))"

subsection \<open>Chart 5: ADR Bin Distribution (lines 157-177)\<close>

definition step_percent :: real where
  "step_percent = 0.05"

text \<open>A comparison with a null is false; a product with a null is null.\<close>

definition num_lt :: "num \<Rightarrow> num \<Rightarrow> bool" where
  "num_lt a b = (case (a, b) of (Some x, Some y) \<Rightarrow> x < y | _ \<Rightarrow> False)"

definition num_times :: "num \<Rightarrow> real \<Rightarrow> num" where
  "num_times a k = map_option (\<lambda>x. x * k) a"

text \<open>
  The loop of lines 164-165.  It need not come to an end, so it is a partial function:
  \<open>None\<close> is the run that never leaves the loop.
\<close>

partial_function (option) bin_edges_loop :: "num list \<Rightarrow> num \<Rightarrow> num list option" where
  "bin_edges_loop bin_edges adr_max =
     (if num_lt (last bin_edges) adr_max
      then bin_edges_loop (bin_edges @ [num_times (last bin_edges) (1 + step_percent)]) adr_max
      else Some bin_edges)"

declare bin_edges_loop.simps [code]

text \<open>Lines 160-165 on a table.\<close>

definition bin_edges :: "frame \<Rightarrow> num list option" where
  "bin_edges filtered =
     bin_edges_loop [col_min (map adr (rows filtered))] (col_max (map adr (rows filtered)))"

text \<open>\<open>int(x)\<close> cuts the fraction off, towards zero.\<close>

definition py_int :: "real \<Rightarrow> int" where
  "py_int x = (if 0 \<le> x then floor x else ceiling x)"

definition bin_labels :: "real list \<Rightarrow> cell list" where
  "bin_labels es = map (\<lambda>i. Bin (py_int (es ! i)) (py_int (es ! (i + 1)))) [0..<length es - 1]"

datatype exn = ValueError

text \<open>
  Line 167 assigns the new column to \<open>filtered\<close> itself.  \<open>pd.cut\<close> raises where it
  does not accept the edges and labels; an edge list that holds a null (an ADR column
  without a value) is not increasing either.  The grouping of line 169 has a categorical
  and a plain key: the bins as in \<open>groupby_categorical\<close>, the room types in ascending
  order.
\<close>

definition chart5 :: "bool \<Rightarrow> frame \<Rightarrow> (exn + widget list \<times> frame) option" where
  "chart5 observed filtered =
     (case bin_edges filtered of
        None \<Rightarrow> None
      | Some edges \<Rightarrow>
          Some (if None \<in> set edges then Inl ValueError
                else (let es = present edges; names = bin_labels es in
                  if \<not> cut_accepts (map Edge es) names then Inl ValueError
                  else (let filtered' =
                              assign ''ADR_BIN_5P''
                                (map (pd_cut (map Edge es) names True) (map adr (rows filtered)))
                                filtered;
                            keyed = zip (column ''ADR_BIN_5P'' filtered')
                                      (map Room_Type (rows filtered'));
                            summary =
                              concat (map (\<lambda>b. concat (map (\<lambda>t.
                                  if \<not> observed \<or> (b, t) \<in> set keyed
                                  then [(b, t, length (filter (\<lambda>k. k = (b, t)) keyed))]
                                  else [])
                                (sort (remdups (map Room_Type (rows filtered')))))) names);
                            summary' = filter (\<lambda>(b, t, n). t \<in> set [Shower, Bathtub]) summary
                        in Inr ([Subheader ''ADR Bin (5%) Distribution by Room Type'',
                                 Bar summary'], filtered')))))"

subsection \<open>The script\<close>

record inputs =
  selected_dates :: date_input
  selected_chart :: string
  chosen_month :: string
  slider_positions :: "string \<Rightarrow> real option"

text \<open>The chain of \<open>if\<close> and \<open>elif\<close> of lines 67-157: at most one routine runs.\<close>

definition dispatch :: "bool \<Rightarrow> inputs \<Rightarrow> frame \<Rightarrow> (exn + widget list \<times> frame) option" where
  "dispatch observed inp filtered =
     (if selected_chart inp = ''Monthly ADR Distribution'' then Some (Inr (chart1 filtered))
      else if selected_chart inp = ''Top 3 ADR Revenue Share by Month''
        then Some (Inr (chart2 observed (chosen_month inp) filtered))
      else if selected_chart inp = ''Year-over-Year Trends'' then Some (Inr (chart3 filtered))
      else if selected_chart inp = ''Seasonal Analysis (Interactive)''
        then Some (Inr (chart4 (slider_positions inp) filtered))
      else if selected_chart inp = ''ADR Bin Distribution'' then chart5 observed filtered
      else Some (Inr ([], filtered)))"

text \<open>
  The variables \<open>data\<close> and \<open>filtered\<close> at the end of a run; \<open>filtered\<close> is unbound
  where the run stopped at line 52.
\<close>

record vars =
  data_var :: frame
  filtered_var :: "frame option"

text \<open>
  One run, from the loaded table and the inputs: an incomplete date selection shows the
  error and stops (\<open>st.stop\<close>); otherwise the table is filtered, the title is shown and
  the selected routine runs.
\<close>

definition script :: "bool \<Rightarrow> frame \<Rightarrow> inputs \<Rightarrow> (exn + widget list \<times> vars) option" where
  "script observed data inp =
     (case date_range_filter data (selected_dates inp) of
        Inl e \<Rightarrow> Some (Inr ([Error (error_message e)], \<lparr> data_var = data, filtered_var = None \<rparr>))
      | Inr filtered \<Rightarrow>
          (case dispatch observed inp filtered of
             None \<Rightarrow> None
           | Some (Inl x) \<Rightarrow> Some (Inl x)
           | Some (Inr (out, filtered')) \<Rightarrow>
               Some (Inr (Title ''Hotel ADR Dashboard'' # out,
                          \<lparr> data_var = data, filtered_var = Some filtered' \<rparr>))))"

text \<open>
  Every interaction runs the script again from its first line, on the table as loaded;
  the script keeps nothing from one run to the next.
\<close>

definition session :: "bool \<Rightarrow> frame \<Rightarrow> inputs list \<Rightarrow> (exn + widget list \<times> vars) option list" where
  "session observed data inps = map (script observed data) inps"

subsection \<open>Example tables\<close>

text \<open>Small tables on which the theorems below are run.\<close>

definition booking :: "int \<Rightarrow> month \<Rightarrow> nat \<Rightarrow> string \<Rightarrow> real \<Rightarrow> real \<Rightarrow> reservation" where
  "booking y m d text_of_room a p =
     \<lparr> check_in = Some \<lparr> year_of = y, month_of = m, day_of = d \<rparr>, adr = Some a,
       total_price = Some p, room = text_of_room, night = 1, booking_reference = Some ''ref'' \<rparr>"

definition table :: "reservation list \<Rightarrow> frame" where
  "table rs = \<lparr> rows = rs, added = [] \<rparr>"

text \<open>Four bookings of one January, one in each ADR group, two of them with equal revenue.\<close>

definition january :: frame where
  "january = table [booking 2024 Jan 3 ''Twin (shower)'' 700 500,
                    booking 2024 Jan 4 ''Twin (shower)'' 900 900,
                    booking 2024 Jan 5 ''Twin (bathtub)'' 1100 300,
                    booking 2024 Jan 6 ''Twin (bathtub)'' 1300 900]"

text \<open>Bookings of two Januaries and one March, the March first.\<close>

definition two_years :: frame where
  "two_years = table [booking 2024 Mar 9 ''Twin (shower)'' 900 900,
                      booking 2023 Jan 3 ''Twin (shower)'' 1000 1000,
                      booking 2024 Jan 4 ''Twin (bathtub)'' 2000 2000]"

text \<open>A loaded table with a suite, a booking outside the range and one without a date.\<close>

definition loaded :: frame where
  "loaded = table [booking 2024 Jan 10 ''Deluxe Twin Room with SHOWER'' 900 900,
                   booking 2024 Mar 1 ''Deluxe twin, Bath Tub'' 1100 1100,
                   booking 2024 Jan 15 ''Suite'' 3000 3000,
                   booking 2024 Jan 20 ''Twin (shower)'' 950 950
                     \<lparr> check_in := None \<rparr>,
                   booking 2024 Feb 2 ''Twin (bathtub)'' 1250 2500]"

definition day :: "int \<Rightarrow> month \<Rightarrow> nat \<Rightarrow> date" where
  "day y m d = \<lparr> year_of = y, month_of = m, day_of = d \<rparr>"

definition pick :: "date_input \<Rightarrow> string \<Rightarrow> inputs" where
  "pick dates chart =
     \<lparr> selected_dates = dates, selected_chart = chart, chosen_month = ''Jan'',
       slider_positions = (\<lambda>t. None) \<rparr>"




section \<open>Properties\<close>

subsection \<open>The room classifier\<close>

lemma startswith_iff: "startswith s p \<longleftrightarrow> (\<exists>q. s = p @ q)"
  by (induction s p rule: startswith.induct) auto

lemma contains_iff: "contains sub s \<longleftrightarrow> (\<exists>p q. s = p @ sub @ q)"
proof (induction s)
  case Nil
  then show ?case by auto
next
  case (Cons c cs)
  show ?case
  proof
    assume "contains sub (c # cs)"
    then consider "startswith (c # cs) sub" | "contains sub cs" by auto
    then show "\<exists>p q. c # cs = p @ sub @ q"
    proof cases
      case 1
      then obtain q where "c # cs = sub @ q" by (auto simp: startswith_iff)
      then have "c # cs = [] @ sub @ q" by simp
      then show ?thesis by blast
    next
      case 2
      then obtain p q where "cs = p @ sub @ q" using Cons.IH by auto
      then have "c # cs = (c # p) @ sub @ q" by simp
      then show ?thesis by blast
    qed
  next
    assume "\<exists>p q. c # cs = p @ sub @ q"
    then obtain p q where pq: "c # cs = p @ sub @ q" by blast
    show "contains sub (c # cs)"
    proof (cases p)
      case Nil
      then have "startswith (c # cs) sub" using pq by (auto simp: startswith_iff)
      then show ?thesis by simp
    next
      case (Cons a p')
      then have "cs = p' @ sub @ q" using pq by simp
      then have "contains sub cs" using Cons.IH by blast
      then show ?thesis by simp
    qed
  qed
qed

text \<open>
  C7.  The classifier is a function of the room text that gives one of three labels.  It
  looks at the lowered text only, so texts that differ in case alone get the same label.
  A text whose lowered form contains \<open>shower\<close> is a Shower room whatever else it
  contains; otherwise one that contains \<open>bathtub\<close> or \<open>bath tub\<close> is a Bathtub
  room; every other text is \<open>Other\<close>.
\<close>

theorem map_room_type_priority:
  "map_room_type r \<in> {Shower, Bathtub, Other}
   \<and> ((\<exists>p q. lower r = p @ ''shower'' @ q) \<longrightarrow> map_room_type r = Shower)
   \<and> (\<not> (\<exists>p q. lower r = p @ ''shower'' @ q) \<and>
        ((\<exists>p q. lower r = p @ ''bathtub'' @ q) \<or> (\<exists>p q. lower r = p @ ''bath tub'' @ q))
        \<longrightarrow> map_room_type r = Bathtub)
   \<and> (\<not> (\<exists>p q. lower r = p @ ''shower'' @ q) \<and> \<not> (\<exists>p q. lower r = p @ ''bathtub'' @ q) \<and>
        \<not> (\<exists>p q. lower r = p @ ''bath tub'' @ q) \<longrightarrow> map_room_type r = Other)
   \<and> (lower r = lower r' \<longrightarrow> map_room_type r = map_room_type r')"
  unfolding map_room_type_def Let_def contains_iff [symmetric] by simp

theorem map_room_type_priority_witness:
  "map_room_type ''Twin SHOWER, no Bathtub'' = Shower
   \<and> map_room_type ''Twin, Bath Tub'' = Bathtub
   \<and> map_room_type ''Suite'' = Other
   \<and> map_room_type ''TWIN shower, NO bathtub'' = map_room_type ''Twin SHOWER, no Bathtub''"
proof -
  have a: "\<exists>p q. lower ''Twin SHOWER, no Bathtub'' = p @ ''shower'' @ q"
    unfolding contains_iff [symmetric] by code_simp
  have b: "\<not> (\<exists>p q. lower ''Twin, Bath Tub'' = p @ ''shower'' @ q) \<and>
        ((\<exists>p q. lower ''Twin, Bath Tub'' = p @ ''bathtub'' @ q) \<or>
         (\<exists>p q. lower ''Twin, Bath Tub'' = p @ ''bath tub'' @ q))"
    unfolding contains_iff [symmetric] by code_simp
  have c: "\<not> (\<exists>p q. lower ''Suite'' = p @ ''shower'' @ q) \<and>
        \<not> (\<exists>p q. lower ''Suite'' = p @ ''bathtub'' @ q) \<and>
        \<not> (\<exists>p q. lower ''Suite'' = p @ ''bath tub'' @ q)"
    unfolding contains_iff [symmetric] by code_simp
  have d: "lower ''TWIN shower, NO bathtub'' = lower ''Twin SHOWER, no Bathtub''" by code_simp
  note t1 = map_room_type_priority [of "''Twin SHOWER, no Bathtub''" "''Twin SHOWER, no Bathtub''"]
  note t2 = map_room_type_priority [of "''Twin, Bath Tub''" "''Twin, Bath Tub''"]
  note t3 = map_room_type_priority [of "''Suite''" "''Suite''"]
  note t4 = map_room_type_priority [of "''TWIN shower, NO bathtub''" "''Twin SHOWER, no Bathtub''"]
  have 1: "map_room_type ''Twin SHOWER, no Bathtub'' = Shower"
    by (rule t1 [THEN conjunct2, THEN conjunct1, THEN mp, OF a])
  have 2: "map_room_type ''Twin, Bath Tub'' = Bathtub"
    by (rule t2 [THEN conjunct2, THEN conjunct2, THEN conjunct1, THEN mp, OF b])
  have 3: "map_room_type ''Suite'' = Other"
    by (rule t3 [THEN conjunct2, THEN conjunct2, THEN conjunct2, THEN conjunct1, THEN mp, OF c])
  have 4: "map_room_type ''TWIN shower, NO bathtub'' = map_room_type ''Twin SHOWER, no Bathtub''"
    by (rule t4 [THEN conjunct2, THEN conjunct2, THEN conjunct2, THEN conjunct2, THEN mp, OF d])
  show ?thesis by (intro conjI 1 2 3 4)
qed

subsection \<open>The date-range filter\<close>

lemma Other_not_recognised: "Other \<noteq> Shower" "Other \<noteq> Bathtub"
  by (simp_all add: Other_def Shower_def Bathtub_def)

text \<open>
  C6.  Every row of a table that the date-range filter produces is a row of the loaded
  table whose \<open>Check-in\<close> lies between the start and the end date, both included, and
  whose room type is one of the two recognised ones; no row classified \<open>Other\<close> is
  in it.
\<close>

theorem date_range_filter_rows:
  assumes "date_range_filter data sel = Inr filtered"
  shows "\<exists>s e. sel = Tuple [s, e] \<and>
           (\<forall>r \<in> set (rows filtered).
              r \<in> set (rows data) \<and>
              (\<exists>d. check_in r = Some d \<and> date_le s d \<and> date_le d e) \<and>
              Room_Type r \<in> {Shower, Bathtub} \<and> Room_Type r \<noteq> Other)"
proof -
  from assms obtain s e where sel: "sel = Tuple [s, e]"
    and f: "filtered = boolean_index (date_mask s e) data"
    by (auto simp: date_range_filter_def split: date_input.splits list.splits)
  have "\<forall>r \<in> set (rows filtered).
              r \<in> set (rows data) \<and>
              (\<exists>d. check_in r = Some d \<and> date_le s d \<and> date_le d e) \<and>
              Room_Type r \<in> {Shower, Bathtub} \<and> Room_Type r \<noteq> Other"
    using Other_not_recognised
    by (auto simp: f boolean_index_def date_mask_def split: option.splits)
  with sel show ?thesis by blast
qed

lemma loaded_filtered:
  "date_range_filter loaded (Tuple [day 2024 Jan 1, day 2024 Feb 28]) =
     Inr (table [booking 2024 Jan 10 ''Deluxe Twin Room with SHOWER'' 900 900,
                 booking 2024 Feb 2 ''Twin (bathtub)'' 1250 2500])"
  by code_simp

theorem date_range_filter_rows_witness:
  "date_range_filter loaded (Tuple [day 2024 Jan 1, day 2024 Feb 28]) =
     Inr (table [booking 2024 Jan 10 ''Deluxe Twin Room with SHOWER'' 900 900,
                 booking 2024 Feb 2 ''Twin (bathtub)'' 1250 2500])
   \<and> (\<exists>s e. Tuple [day 2024 Jan 1, day 2024 Feb 28] = Tuple [s, e] \<and>
           (\<forall>r \<in> set (rows (table [booking 2024 Jan 10 ''Deluxe Twin Room with SHOWER'' 900 900,
                                      booking 2024 Feb 2 ''Twin (bathtub)'' 1250 2500])).
              r \<in> set (rows loaded) \<and>
              (\<exists>d. check_in r = Some d \<and> date_le s d \<and> date_le d e) \<and>
              Room_Type r \<in> {Shower, Bathtub} \<and> Room_Type r \<noteq> Other))"
  by (rule conjI [OF loaded_filtered date_range_filter_rows [OF loaded_filtered]])

subsection \<open>The ADR groups\<close>

lemma bins_labels_accepted: "cut_accepts bins labels"
  by (simp add: cut_accepts_def bins_def labels_def)

text \<open>
  C1, as the code has it.  The ADR groups are closed on the right and open on the left:
  \<open>(0, 800]\<close>, \<open>(800, 1000]\<close>, \<open>(1000, 1200]\<close> and everything above 1200.  So
  799.99 and 800 are both \<open><800\<close>, 1199.99 and 1200 are both \<open>1000-1200\<close>, and
  \<open>>1200\<close> starts strictly above 1200.  A null ADR, and an ADR of 0 or less, is in no
  group.
\<close>

theorem adr_group_right_closed:
  "adr_group None = NA \<and>
   adr_group (Some x) =
     (if x \<le> 0 then NA
      else if x \<le> 800 then Group ''<800''
      else if x \<le> 1000 then Group ''800-1000''
      else if x \<le> 1200 then Group ''1000-1200''
      else Group ''>1200'')"
  by (simp add: adr_group_def pd_cut_def bins_def labels_def searchsorted_left_def Let_def)

text \<open>
  The boundary values 800 and 1200 are not in the groups \<open>800-1000\<close> and \<open>>1200\<close>,
  as left-closed intervals would have it.
\<close>

theorem adr_group_800_1200:
  "adr_group (Some 800) = Group ''<800'' \<and> adr_group (Some 800) \<noteq> Group ''800-1000'' \<and>
   adr_group (Some 1200) = Group ''1000-1200'' \<and> adr_group (Some 1200) \<noteq> Group ''>1200''"
  by (simp add: adr_group_def pd_cut_def bins_def labels_def searchsorted_left_def Let_def)

subsection \<open>The 5% bin edges\<close>

lemma present_Nil_iff: "present xs = [] \<longleftrightarrow> (\<forall>x \<in> set xs. x = None)"
  by (induction xs) (auto simp: present_def split: option.splits)

lemma set_present: "set (present xs) = {v. Some v \<in> set xs}"
  by (induction xs) (auto simp: present_def split: option.splits)

lemma fold_min_least: "fold min vs (v::real) \<le> v \<and> (\<forall>x \<in> set vs. fold min vs v \<le> x) \<and> fold min vs v \<in> insert v (set vs)"
proof (induction vs arbitrary: v)
  case Nil
  then show ?case by simp
next
  case (Cons a vs)
  from Cons [of "min a v"] show ?case by (auto simp: min_def split: if_splits)
qed

lemma col_min_least:
  assumes "col_min xs = Some m"
  shows "Some m \<in> set xs \<and> (\<forall>v. Some v \<in> set xs \<longrightarrow> m \<le> v)"
proof -
  from assms obtain v vs where p: "present xs = v # vs" and m: "m = fold min vs v"
    by (auto simp: col_min_def split: list.splits)
  have s: "set (v # vs) = {v. Some v \<in> set xs}" using set_present [of xs] p by simp
  from fold_min_least [of vs v] m s show ?thesis by auto
qed














subsection \<open>An incomplete date selection\<close>

lemma not_a_pair:
  assumes "\<forall>s e. sel \<noteq> Tuple [s, e]"
  shows "date_range_filter data sel = Inl Select_both_dates"
proof (cases sel)
  case (One d)
  then show ?thesis by (simp add: date_range_filter_def)
next
  case (Tuple ds)
  show ?thesis
  proof (cases ds)
    case Nil
    with Tuple show ?thesis by (simp add: date_range_filter_def)
  next
    case (Cons a as)
    note outer = Cons
    show ?thesis
    proof (cases as)
      case Nil
      with Tuple outer show ?thesis by (simp add: date_range_filter_def)
    next
      case (Cons b bs)
      with assms Tuple outer have "bs \<noteq> []" by auto
      then obtain c cs where "bs = c # cs" by (cases bs) auto
      with Tuple outer Cons show ?thesis by (simp add: date_range_filter_def)
    qed
  qed
qed

text \<open>
  C9.  Where the date selection is anything but a pair of a start and an end date, the
  run shows the error message and stops: nothing else is shown, no chart is drawn and
  \<open>filtered\<close> is never bound.  The next run starts from the loaded table again, so it is
  what it would have been without the failed one.  Where both dates are there, the table
  is filtered and the selected routine runs on it.
\<close>

theorem incomplete_selection_stops:
  "((\<forall>s e. selected_dates inp \<noteq> Tuple [s, e]) \<longrightarrow>
      script observed data inp =
        Some (Inr ([Error ''Please select both a start and end date.''],
                   \<lparr> data_var = data, filtered_var = None \<rparr>))
      \<and> \<not> list_ex is_chart [Error ''Please select both a start and end date.'']
      \<and> session observed data [inp, next_inp] =
          [Some (Inr ([Error ''Please select both a start and end date.''],
                      \<lparr> data_var = data, filtered_var = None \<rparr>)),
           script observed data next_inp])
   \<and> (selected_dates inp = Tuple [s, e] \<longrightarrow>
      script observed data inp =
        (case dispatch observed inp (boolean_index (date_mask s e) data) of
           None \<Rightarrow> None
         | Some (Inl x) \<Rightarrow> Some (Inl x)
         | Some (Inr (out, filtered')) \<Rightarrow>
             Some (Inr (Title ''Hotel ADR Dashboard'' # out,
                        \<lparr> data_var = data, filtered_var = Some filtered' \<rparr>))))"
proof (intro conjI impI)
  assume a: "\<forall>s e. selected_dates inp \<noteq> Tuple [s, e]"
  show r: "script observed data inp =
        Some (Inr ([Error ''Please select both a start and end date.''],
                   \<lparr> data_var = data, filtered_var = None \<rparr>))"
    by (simp add: script_def not_a_pair [OF a] error_message_def)
  show "\<not> list_ex is_chart [Error ''Please select both a start and end date.'']" by simp
  show "session observed data [inp, next_inp] =
          [Some (Inr ([Error ''Please select both a start and end date.''],
                      \<lparr> data_var = data, filtered_var = None \<rparr>)),
           script observed data next_inp]"
    by (simp add: session_def r)
next
  assume "selected_dates inp = Tuple [s, e]"
  then show "script observed data inp =
        (case dispatch observed inp (boolean_index (date_mask s e) data) of
           None \<Rightarrow> None
         | Some (Inl x) \<Rightarrow> Some (Inl x)
         | Some (Inr (out, filtered')) \<Rightarrow>
             Some (Inr (Title ''Hotel ADR Dashboard'' # out,
                        \<lparr> data_var = data, filtered_var = Some filtered' \<rparr>)))"
    by (simp add: script_def date_range_filter_def)
qed

lemma one_date_picked:
  "\<forall>s e. selected_dates (pick (Tuple [day 2024 Jan 1]) ''Year-over-Year Trends'') \<noteq> Tuple [s, e]"
  by (simp add: pick_def)

lemma both_dates_picked:
  "selected_dates (pick (Tuple [day 2024 Jan 1, day 2024 Mar 1]) ''Year-over-Year Trends'') =
     Tuple [day 2024 Jan 1, day 2024 Mar 1]"
  by (simp add: pick_def)

lemma loaded_trends:
  "(case dispatch True (pick (Tuple [day 2024 Jan 1, day 2024 Mar 1]) ''Year-over-Year Trends'')
           (boolean_index (date_mask (day 2024 Jan 1) (day 2024 Mar 1)) loaded) of
      None \<Rightarrow> None
    | Some (Inl x) \<Rightarrow> Some (Inl x)
    | Some (Inr (out, filtered')) \<Rightarrow>
        Some (Inr (Title ''Hotel ADR Dashboard'' # out,
                   \<lparr> data_var = loaded, filtered_var = Some filtered' \<rparr>))) =
   Some (Inr ([Title ''Hotel ADR Dashboard'',
               Subheader ''Year-over-Year ADR and Booking Trends'',
               Lines [(''Jan'', Some 900, 1), (''Feb'', Some 1250, 1), (''Mar'', Some 1100, 1)]],
              \<lparr> data_var = loaded,
                filtered_var = Some (table [booking 2024 Jan 10 ''Deluxe Twin Room with SHOWER'' 900 900,
                   booking 2024 Mar 1 ''Deluxe twin, Bath Tub'' 1100 1100,
                   booking 2024 Feb 2 ''Twin (bathtub)'' 1250 2500]) \<rparr>))"
  by code_simp

theorem incomplete_selection_stops_witness:
  "session True loaded
     [pick (Tuple [day 2024 Jan 1]) ''Year-over-Year Trends'',
      pick (Tuple [day 2024 Jan 1, day 2024 Mar 1]) ''Year-over-Year Trends''] =
   [Some (Inr ([Error ''Please select both a start and end date.''],
               \<lparr> data_var = loaded, filtered_var = None \<rparr>)),
    Some (Inr ([Title ''Hotel ADR Dashboard'',
               Subheader ''Year-over-Year ADR and Booking Trends'',
               Lines [(''Jan'', Some 900, 1), (''Feb'', Some 1250, 1), (''Mar'', Some 1100, 1)]],
              \<lparr> data_var = loaded,
                filtered_var = Some (table [booking 2024 Jan 10 ''Deluxe Twin Room with SHOWER'' 900 900,
                   booking 2024 Mar 1 ''Deluxe twin, Bath Tub'' 1100 1100,
                   booking 2024 Feb 2 ''Twin (bathtub)'' 1250 2500]) \<rparr>))]"
proof -
  note t1 = incomplete_selection_stops
    [of "pick (Tuple [day 2024 Jan 1]) ''Year-over-Year Trends''" True loaded
        "pick (Tuple [day 2024 Jan 1, day 2024 Mar 1]) ''Year-over-Year Trends''",
     THEN conjunct1, THEN mp, OF one_date_picked]
  note t2 = incomplete_selection_stops
    [of "pick (Tuple [day 2024 Jan 1, day 2024 Mar 1]) ''Year-over-Year Trends''" True loaded _
        "day 2024 Jan 1" "day 2024 Mar 1",
     THEN conjunct2, THEN mp, OF both_dates_picked]
  show ?thesis
    by (simp only: t1 [THEN conjunct2, THEN conjunct2] t2 loaded_trends)
qed

end
